theory Spec2Isabelle
  imports Complex_Main "HOL-Library.Word" "HOL-Library.Multiset"
begin

section \<open>JavaScript values\<close>

text \<open>
  A JavaScript string is a sequence of UTF-16 code units. The string literals of the
  source are ASCII, except for the em dash (U+2014) in the template literal of
  \<open>generateIdea\<close>.
\<close>

type_synonym jsstring = "16 word list"

definition lit :: "string \<Rightarrow> jsstring" where
  "lit s = map (\<lambda>c. of_nat (of_char c)) s"

text \<open>A template literal that spans several lines: the lines joined by U+000A.\<close>

fun code_text :: "string list \<Rightarrow> jsstring" where
  "code_text [] = []"
| "code_text [l] = lit l"
| "code_text (l # ls) = lit l @ [0x0A] @ code_text ls"

text \<open>
  \<open>String.prototype.trim\<close> strips the code units that ECMAScript calls WhiteSpace or
  LineTerminator from both ends.
\<close>

definition isWhiteSpace :: "16 word \<Rightarrow> bool" where
  "isWhiteSpace c = (c \<in> set
     [0x0009, 0x000A, 0x000B, 0x000C, 0x000D, 0x0020, 0x00A0, 0x1680,
      0x2000, 0x2001, 0x2002, 0x2003, 0x2004, 0x2005, 0x2006, 0x2007,
      0x2008, 0x2009, 0x200A, 0x2028, 0x2029, 0x202F, 0x205F, 0x3000, 0xFEFF])"

definition trim :: "jsstring \<Rightarrow> jsstring" where
  "trim s = rev (dropWhile isWhiteSpace (rev (dropWhile isWhiteSpace s)))"

text \<open>
  A number is a binary64 float. A draw of \<open>Math.random()\<close> is one in \<open>[0, 1)\<close>: each of
  them is \<open>m / 2 ^ (53 + k)\<close> for a mantissa \<open>m\<close> below \<open>2 ^ 53\<close> and a shift \<open>k\<close> of at
  most 1021, and \<open>Draw m k\<close> stands for it.
\<close>

datatype draw = Draw (mant: "53 word") (shift: nat)

text \<open>The number of binary digits of a natural number.\<close>

fun bits :: "nat \<Rightarrow> nat" where
  "bits n = (if n = 0 then 0 else Suc (bits (n div 2)))"

declare bits.simps [simp del]

text \<open>
  \<open>p / 2 ^ s\<close> rounded to the nearest integer, a tie to the even one; and \<open>p\<close> rounded
  to 53 significant binary digits, which is how binary64 rounds the exact result of an
  operation whose value is \<open>p\<close> times a power of two in the normal range.
\<close>

definition round_shift :: "nat \<Rightarrow> nat \<Rightarrow> nat" where
  "round_shift p s =
    (let q = p div 2 ^ s; t = p mod 2 ^ s
     in if 2 * t < 2 ^ s then q
        else if 2 ^ s < 2 * t then q + 1
        else if even q then q else q + 1)"

definition round53 :: "nat \<Rightarrow> nat" where
  "round53 p = round_shift p (bits p - 53) * 2 ^ (bits p - 53)"

text \<open>
  \<open>Math.floor(Math.random() * n)\<close> for the draw \<open>d\<close>: the exact product is
  \<open>m * n / 2 ^ (53 + k)\<close>, the multiplication rounds its numerator, and the floor is
  the integer quotient.
\<close>

definition floor_random :: "draw \<Rightarrow> nat \<Rightarrow> nat" where
  "floor_random d n = round53 (unat (mant d) * n) div 2 ^ (53 + shift d)"

text \<open>
  \<open>Math.random() - 0.5\<close> for the draw \<open>d\<close>, the value of the comparator that
  \<open>performSearch\<close> sorts with: the exact difference is
  \<open>(m - 2 ^ (52 + k)) / 2 ^ (53 + k)\<close>, and the subtraction rounds its numerator.
\<close>

definition comparefn :: "draw \<Rightarrow> real" where
  "comparefn d =
    (let q = int (unat (mant d)) - 2 ^ (52 + shift d)
     in real_of_int (sgn q * int (round53 (nat \<bar>q\<bar>))) / 2 ^ (53 + shift d))"

text \<open>
  Reading a property of \<open>undefined\<close> throws a TypeError. Thrown inside a timer
  callback, it ends the callback; the setters after it are not reached.
\<close>

datatype error = TypeError


section \<open>The idea panel\<close>

definition ideaCategories :: "(jsstring \<times> jsstring \<times> jsstring) list" where
  \<open>ideaCategories =
    [(lit ''tech'', lit ''TECHNOLOGY'', lit ''>''),
     (lit ''business'', lit ''BUSINESS'', lit ''$''),
     (lit ''creative'', lit ''CREATIVE'', lit ''*''),
     (lit ''science'', lit ''SCIENCE'', lit ''%''),
     (lit ''social'', lit ''SOCIAL'', lit ''@'')]\<close>

definition tech_ideas :: "jsstring list" where
  \<open>tech_ideas =
    [lit ''An AI-powered tool that automatically generates documentation from code comments'',
     lit ''A browser extension that summarizes any webpage into key bullet points'',
     lit ''A smart home system that learns your habits and optimizes energy usage'',
     lit ''A decentralized file storage network using blockchain technology'',
     lit ''An AR app that overlays repair instructions on broken appliances'',
     lit ''A machine learning model that predicts software bugs before deployment'',
     lit ''A voice-controlled coding assistant for hands-free development'',
     lit ''A quantum computing simulator for educational purposes'']\<close>

definition business_ideas :: "jsstring list" where
  \<open>business_ideas =
    [lit ''A subscription service for personalized vitamin packs based on DNA analysis'',
     lit ''An AI matchmaker for co-founders seeking business partners'',
     lit ''A platform connecting retired experts with startups needing mentorship'',
     lit ''A marketplace for renting out unused computing power'',
     lit ''A reverse auction platform where businesses bid for customer attention'',
     lit ''An automated bookkeeping service using receipt scanning and AI'',
     lit ''A B2B bartering platform for exchanging services without currency'',
     lit ''A fractional ownership platform for commercial real estate'']\<close>

definition creative_ideas :: "jsstring list" where
  \<open>creative_ideas =
    [lit ''A collaborative music composition app where users build songs together'',
     lit ''An AI that generates unique fonts based on your handwriting'',
     lit ''A virtual reality museum where anyone can exhibit their art'',
     lit ''A procedural poetry generator that creates verses from daily news'',
     lit ''An app that transforms voice memos into illustrated storybooks'',
     lit ''A platform for commissioning custom soundtracks for your life events'',
     lit ''A tool that generates color palettes from any piece of music'',
     lit ''An AI filmmaker that creates short films from text descriptions'']\<close>

definition science_ideas :: "jsstring list" where
  \<open>science_ideas =
    [lit ''A citizen science app for cataloging local biodiversity through photos'',
     lit ''A simulation platform for testing theoretical physics experiments'',
     lit ''An AI assistant for analyzing astronomical data from amateur telescopes'',
     lit ''A molecular modeling tool for high school chemistry education'',
     lit ''A crowdsourced climate monitoring network using smartphone sensors'',
     lit ''A genetic ancestry visualization tool using 3D family trees'',
     lit ''An ocean exploration simulator based on real oceanographic data'',
     lit ''A neural network that predicts protein folding structures'']\<close>

definition social_ideas :: "jsstring list" where
  \<open>social_ideas =
    [lit ''A platform connecting neighbors to share tools and equipment'',
     lit ''An app that organizes local skill-sharing workshops'',
     lit ''A service matching volunteers with elderly residents needing assistance'',
     lit ''A community garden management platform with plot allocation'',
     lit ''A local event discovery app based on your interests and schedule'',
     lit ''A carpooling network specifically for parents doing school runs'',
     lit ''A platform for organizing neighborhood watch programs'',
     lit ''An app connecting pet owners for mutual pet-sitting arrangements'']\<close>

definition ideaTemplates :: "jsstring \<rightharpoonup> jsstring list" where
  "ideaTemplates =
    map_of [(lit ''tech'', tech_ideas),
            (lit ''business'', business_ideas),
            (lit ''creative'', creative_ideas),
            (lit ''science'', science_ideas),
            (lit ''social'', social_ideas)]"


record GeneratedIdea =
  id_gi :: int
  text_gi :: jsstring
  category_gi :: jsstring
  timestamp_gi :: int
  saved_gi :: bool

text \<open>
  A pending \<open>setTimeout\<close> of \<open>generateIdea\<close>: the draw of \<open>Math.random()\<close> in its delay
  \<open>800 + Math.random() * 700\<close>, and the \<open>selectedCategory\<close> and \<open>customPrompt\<close> that the
  callback closed over when the handler ran.
\<close>

datatype idea_timer = IdeaTimer (draw_i: draw) (category_i: jsstring) (prompt_i: jsstring)

text \<open>
  The four \<open>useState\<close> cells of \<open>IdeaGenerator\<close>, the timers it has started that have not
  fired yet, and whether the component is mounted.
\<close>

record idea_panel =
  selectedCategory :: jsstring
  ideas :: "GeneratedIdea list"
  isGenerating_i :: bool
  customPrompt_i :: jsstring
  timers_i :: "idea_timer list"
  mounted_i :: bool

definition idea_initial :: idea_panel where
  "idea_initial =
    \<lparr>selectedCategory = lit ''tech'', ideas = [], isGenerating_i = False,
     customPrompt_i = [], timers_i = [], mounted_i = True\<rparr>"

text \<open>
  The \<open>text\<close> of a new idea: the template literal when \<open>customPrompt\<close> is truthy (a
  non-empty string), the selected template otherwise.
\<close>

definition newIdea_text :: "jsstring \<Rightarrow> jsstring \<Rightarrow> jsstring" where
  \<open>newIdea_text randomIdea customPrompt =
    (if customPrompt \<noteq> []
     then randomIdea @ lit '' '' @ [0x2014] @ lit '' customized for: "'' @ customPrompt @ lit ''"''
     else randomIdea)\<close>

text \<open>
  \<open>generateIdea\<close>: sets the flag and starts the timer; \<open>d\<close> is the draw of
  \<open>Math.random()\<close> in the delay. The handle that \<open>setTimeout\<close> returns is dropped.
\<close>

definition generateIdea :: "draw \<Rightarrow> idea_panel \<Rightarrow> idea_panel" where
  "generateIdea d w =
    w\<lparr>isGenerating_i := True,
      timers_i := timers_i w @ [IdeaTimer d (selectedCategory w) (customPrompt_i w)]\<rparr>"

text \<open>
  The callback of that timer; \<open>r\<close> is its draw of \<open>Math.random()\<close>, \<open>now\<close> the value of
  \<open>Date.now()\<close> and \<open>date\<close> the time value of \<open>new Date()\<close>. A key that \<open>ideaTemplates\<close>
  does not have gives \<open>undefined\<close>, whose \<open>length\<close> cannot be read (properties inherited
  from \<open>Object.prototype\<close> are left out).
\<close>

definition generateIdea_timeout ::
  "idea_timer \<Rightarrow> draw \<Rightarrow> int \<Rightarrow> int \<Rightarrow> idea_panel \<Rightarrow> error + idea_panel" where
  "generateIdea_timeout t r now date w =
    (case ideaTemplates (category_i t) of
       None \<Rightarrow> Inl TypeError
     | Some categoryIdeas \<Rightarrow>
        (let randomIdea = categoryIdeas ! floor_random r (length categoryIdeas);
             newIdea = \<lparr>id_gi = now,
                        text_gi = newIdea_text randomIdea (prompt_i t),
                        category_gi = category_i t,
                        timestamp_gi = date,
                        saved_gi = False\<rparr>
         in Inr (w\<lparr>ideas := newIdea # ideas w, isGenerating_i := False\<rparr>)))"

definition toggleSaved :: "int \<Rightarrow> idea_panel \<Rightarrow> idea_panel" where
  "toggleSaved i w =
    w\<lparr>ideas := map (\<lambda>idea. if id_gi idea = i then idea\<lparr>saved_gi := \<not> saved_gi idea\<rparr> else idea)
                  (ideas w)\<rparr>"

definition deleteIdea :: "int \<Rightarrow> idea_panel \<Rightarrow> idea_panel" where
  "deleteIdea i w = w\<lparr>ideas := filter (\<lambda>idea. id_gi idea \<noteq> i) (ideas w)\<rparr>"

text \<open>The \<open>[CLEAR_ALL]\<close> button: \<open>setIdeas([])\<close>.\<close>

definition clearAll :: "idea_panel \<Rightarrow> idea_panel" where
  "clearAll w = w\<lparr>ideas := []\<rparr>"

text \<open>
  What can happen to the panel. The category buttons are those of \<open>ideaCategories\<close>; the
  generate button is disabled while \<open>isGenerating\<close>. A timer that fires leaves the
  pending ones; unmounting runs no code of the panel (it registers no effect), and the
  setters of a component that is no longer mounted change nothing.
\<close>

datatype idea_event =
    SelectCategory jsstring
  | TypePrompt jsstring
  | ClickGenerate draw
  | ClickToggleSaved int
  | ClickDelete int
  | ClickClearAll
  | IdeaTimeout nat draw int int
  | UnmountIdeas

fun idea_handle :: "idea_event \<Rightarrow> idea_panel \<Rightarrow> idea_panel" where
  "idea_handle (SelectCategory c) w =
     (if c \<in> set (map fst ideaCategories) then w\<lparr>selectedCategory := c\<rparr> else w)"
| "idea_handle (TypePrompt p) w = w\<lparr>customPrompt_i := p\<rparr>"
| "idea_handle (ClickGenerate d) w = (if isGenerating_i w then w else generateIdea d w)"
| "idea_handle (ClickToggleSaved i) w = toggleSaved i w"
| "idea_handle (ClickDelete i) w = deleteIdea i w"
| "idea_handle ClickClearAll w = clearAll w"
| "idea_handle _ w = w"

fun idea_step :: "idea_event \<Rightarrow> idea_panel \<Rightarrow> idea_panel" where
  "idea_step UnmountIdeas w = w\<lparr>mounted_i := False\<rparr>"
| "idea_step (IdeaTimeout k r now date) w =
     (if k < length (timers_i w)
      then (let w' = w\<lparr>timers_i := take k (timers_i w) @ drop (Suc k) (timers_i w)\<rparr>
            in if mounted_i w
               then (case generateIdea_timeout (timers_i w ! k) r now date w' of
                       Inl e \<Rightarrow> w' | Inr w'' \<Rightarrow> w'')
               else w')
      else w)"
| "idea_step e w = (if mounted_i w then idea_handle e w else w)"


section \<open>The research panel\<close>

record ResearchResult =
  id_rr :: int
  title_rr :: jsstring
  summary_rr :: jsstring
  source_rr :: jsstring
  relevance_rr :: int
  category_rr :: jsstring

definition mockResearchResults :: "ResearchResult list" where
  \<open>mockResearchResults =
    [\<lparr>id_rr = 1,
      title_rr = lit ''Neural Networks and Creative Problem Solving'',
      summary_rr = lit ''Recent studies show that neural networks can assist in generating novel solutions by identifying patterns in large datasets that humans might overlook.'',
      source_rr = lit ''AI Research Journal'',
      relevance_rr = 95,
      category_rr = lit ''AI/ML''\<rparr>,
     \<lparr>id_rr = 2,
      title_rr = lit ''Market Trends in Sustainable Technology'',
      summary_rr = lit ''The sustainable tech market is projected to grow by 25% annually, with particular demand in energy storage and green computing solutions.'',
      source_rr = lit ''Tech Market Analysis'',
      relevance_rr = 87,
      category_rr = lit ''MARKET''\<rparr>,
     \<lparr>id_rr = 3,
      title_rr = lit ''User Experience in Idea Generation Tools'',
      summary_rr = lit ''Research indicates that tools with gamification elements increase user engagement and the quality of generated ideas by up to 40%.'',
      source_rr = lit ''UX Research Quarterly'',
      relevance_rr = 82,
      category_rr = lit ''UX''\<rparr>,
     \<lparr>id_rr = 4,
      title_rr = lit ''Collaborative Innovation Frameworks'',
      summary_rr = lit ''Open innovation frameworks that combine internal R&D with external idea sourcing show 3x higher success rates for breakthrough innovations.'',
      source_rr = lit ''Innovation Management'',
      relevance_rr = 79,
      category_rr = lit ''STRATEGY''\<rparr>,
     \<lparr>id_rr = 5,
      title_rr = lit ''Patent Landscape Analysis: AI-Generated Content'',
      summary_rr = lit ''The patent landscape for AI-generated content tools shows rapid growth, with 500+ patents filed in the last quarter alone.'',
      source_rr = lit ''Patent Analytics DB'',
      relevance_rr = 74,
      category_rr = lit ''LEGAL''\<rparr>]\<close>


text \<open>
  The three \<open>useState\<close> cells that \<open>performSearch\<close> touches and \<open>expandedResult\<close>, the
  delays of the timers that have not fired yet, and whether the component is mounted.
\<close>

record research_panel =
  query :: jsstring
  isSearching :: bool
  results :: "ResearchResult list"
  expandedResult :: "int option"
  timers_r :: "real list"
  mounted_r :: bool

definition research_initial :: research_panel where
  "research_initial =
    \<lparr>query = [], isSearching = False, results = [], expandedResult = None,
     timers_r = [], mounted_r = True\<rparr>"

text \<open>
  \<open>performSearch\<close>: returns at once when the trimmed query is the empty string;
  otherwise sets the flag, empties the results and starts the timer.
\<close>

definition performSearch :: "research_panel \<Rightarrow> research_panel" where
  "performSearch w =
    (if trim (query w) = [] then w
     else w\<lparr>isSearching := True, results := [], timers_r := timers_r w @ [1500]\<rparr>)"

text \<open>
  The callback of that timer. \<open>srt\<close> is what \<open>Array.prototype.sort\<close> makes of the copied
  pool under the comparator \<open>() => Math.random() - 0.5\<close> in this run (\<open>sort_random\<close>
  below, for an engine and the draws of the comparator); \<open>r\<close> is the draw of
  \<open>Math.random()\<close> in the bound of \<open>slice\<close>. The callback reads neither \<open>query\<close> nor
  any other cell.
\<close>

definition performSearch_timeout ::
  "(ResearchResult list \<Rightarrow> ResearchResult list) \<Rightarrow> draw \<Rightarrow> research_panel \<Rightarrow> research_panel" where
  "performSearch_timeout srt r w =
    (let shuffled = take (3 + floor_random r 3) (srt mockResearchResults)
     in w\<lparr>results := shuffled, isSearching := False\<rparr>)"

text \<open>\<open>handleKeyPress\<close>: the Enter key runs \<open>performSearch\<close>, whatever \<open>isSearching\<close> is.\<close>

definition handleKeyPress :: "jsstring \<Rightarrow> research_panel \<Rightarrow> research_panel" where
  "handleKeyPress key w = (if key = lit ''Enter'' then performSearch w else w)"

text \<open>
  What can happen to the panel. The search button is disabled while \<open>isSearching\<close> or
  while the trimmed query is empty; a click on one of the results shown toggles its
  expansion. A timer that fires leaves the pending ones; unmounting runs no code of the
  panel, and the setters of a component that is no longer mounted change nothing.
\<close>

datatype research_event =
    TypeQuery jsstring
  | ClickSearch
  | KeyPress jsstring
  | ClickResult int
  | SearchTimeout nat "ResearchResult list \<Rightarrow> ResearchResult list" draw
  | UnmountResearch

fun research_handle :: "research_event \<Rightarrow> research_panel \<Rightarrow> research_panel" where
  "research_handle (TypeQuery q) w = w\<lparr>query := q\<rparr>"
| "research_handle ClickSearch w =
     (if isSearching w \<or> trim (query w) = [] then w else performSearch w)"
| "research_handle (KeyPress key) w = handleKeyPress key w"
| "research_handle (ClickResult i) w =
     (if i \<in> set (map id_rr (results w))
      then w\<lparr>expandedResult := (if expandedResult w = Some i then None else Some i)\<rparr>
      else w)"
| "research_handle _ w = w"

fun research_step :: "research_event \<Rightarrow> research_panel \<Rightarrow> research_panel" where
  "research_step UnmountResearch w = w\<lparr>mounted_r := False\<rparr>"
| "research_step (SearchTimeout k srt r) w =
     (if k < length (timers_r w)
      then (let w' = w\<lparr>timers_r := take k (timers_r w) @ drop (Suc k) (timers_r w)\<rparr>
            in if mounted_r w then performSearch_timeout srt r w' else w')
      else w)"
| "research_step e w = (if mounted_r w then research_handle e w else w)"

text \<open>The states of the panel after any sequence of events, from its first render.\<close>

definition research_run :: "research_event list \<Rightarrow> research_panel" where
  "research_run es = foldl (\<lambda>w e. research_step e w) research_initial es"

text \<open>
  \<open>Array.prototype.sort\<close> with a comparator sorts the items of the array by a sequence
  of calls of the comparator that the engine chooses. When the comparator is not
  consistent, as here, ECMAScript leaves the order of the items to the engine; the items
  stay those of the array. A run of an engine on an array is: return; or exchange the
  items at two positions and go on; or call the comparator and go on according to the
  number it returns. Moving an item to another position is a sequence of exchanges, so
  every way of calling the comparator and rearranging the items is such a run.
\<close>

datatype engine = Return | Exchange nat nat engine | Call "real \<Rightarrow> engine"

definition exchange :: "nat \<Rightarrow> nat \<Rightarrow> 'a list \<Rightarrow> 'a list" where
  "exchange i j xs =
    (if i < length xs \<and> j < length xs then xs[i := xs ! j, j := xs ! i] else xs)"

text \<open>
  The run of an engine under the comparator \<open>() => Math.random() - 0.5\<close>, which does not
  look at its arguments: \<open>rnd n\<close> is the draw of the \<open>n\<close>-th call of \<open>Math.random()\<close>
  from the start of the sort.
\<close>

primrec run_engine :: "engine \<Rightarrow> (nat \<Rightarrow> draw) \<Rightarrow> nat \<Rightarrow> 'a list \<Rightarrow> 'a list" where
  "run_engine Return rnd n xs = xs"
| "run_engine (Exchange i j e) rnd n xs = run_engine e rnd n (exchange i j xs)"
| "run_engine (Call f) rnd n xs = run_engine (f (comparefn (rnd n))) rnd (Suc n) xs"

text \<open>\<open>[...xs].sort(() => Math.random() - 0.5)\<close> on the engine \<open>e\<close>.\<close>

definition sort_random :: "engine \<Rightarrow> (nat \<Rightarrow> draw) \<Rightarrow> 'a list \<Rightarrow> 'a list" where
  "sort_random e rnd xs = run_engine e rnd 0 xs"

text \<open>
  An engine that sorts by insertion: \<open>sink i\<close> moves the item at position \<open>i\<close> to the left
  as long as the comparator returns a negative number for it and its left neighbour.
\<close>

primrec sink :: "nat \<Rightarrow> engine \<Rightarrow> engine" where
  "sink 0 e = e"
| "sink (Suc i) e = Call (\<lambda>v. if v < 0 then Exchange i (Suc i) (sink i e) else e)"

primrec insertion_from :: "nat \<Rightarrow> nat \<Rightarrow> engine" where
  "insertion_from i 0 = Return"
| "insertion_from i (Suc m) = sink i (insertion_from (Suc i) m)"

definition insertion_engine :: "nat \<Rightarrow> engine" where
  "insertion_engine n = insertion_from 1 (n - 1)"


section \<open>The code panel\<close>

record CodeSnippet =
  id_cs :: int
  language_cs :: jsstring
  title_cs :: jsstring
  code_cs :: jsstring
  description_cs :: jsstring

definition snippet1 :: CodeSnippet where
  \<open>snippet1 =
    \<lparr>id_cs = 1,
     language_cs = lit ''tsx'',
     title_cs = lit ''Custom Hook: useLocalStorage'',
     code_cs = code_text
      [''import { useState, useEffect } from 'react';'',
       [],
       ''function useLocalStorage<T>(key: string, initialValue: T) {'',
       ''  const [storedValue, setStoredValue] = useState<T>(() => {'',
       ''    try {'',
       ''      const item = window.localStorage.getItem(key);'',
       ''      return item ? JSON.parse(item) : initialValue;'',
       ''    } catch (error) {'',
       ''      return initialValue;'',
       ''    }'',
       ''  });'',
       [],
       ''  useEffect(() => {'',
       ''    window.localStorage.setItem(key, JSON.stringify(storedValue));'',
       ''  }, [key, storedValue]);'',
       [],
       ''  return [storedValue, setStoredValue] as const;'',
       ''}''],
     description_cs = lit ''A type-safe custom hook for persisting state to localStorage''\<rparr>\<close>

definition snippet2 :: CodeSnippet where
  \<open>snippet2 =
    \<lparr>id_cs = 2,
     language_cs = lit ''tsx'',
     title_cs = lit ''Debounced Search Component'',
     code_cs = code_text
      [''import { useState, useEffect, useCallback } from 'react';'',
       [],
       ''function DebouncedSearch({ onSearch }: { onSearch: (q: string) => void }) {'',
       (''  const [query, setQuery] = useState('' @ [CHR 0x27] @ [CHR 0x27] @ '');''),
       [],
       ''  const debouncedSearch = useCallback('',
       ''    debounce((q: string) => onSearch(q), 300),'',
       ''    [onSearch]'',
       ''  );'',
       [],
       ''  useEffect(() => {'',
       ''    debouncedSearch(query);'',
       ''  }, [query, debouncedSearch]);'',
       [],
       ''  return ('',
       ''    <input'',
       ''      value={query}'',
       ''      onChange={(e) => setQuery(e.target.value)}'',
       ''      placeholder="Search..."'',
       ''    />'',
       ''  );'',
       ''}''],
     description_cs = lit ''A search input component with built-in debouncing''\<rparr>\<close>

definition snippet3 :: CodeSnippet where
  \<open>snippet3 =
    \<lparr>id_cs = 3,
     language_cs = lit ''python'',
     title_cs = lit ''Async Data Fetcher'',
     code_cs = code_text
      [''import asyncio'',
       ''import aiohttp'',
       ''from typing import List, Dict, Any'',
       [],
       ''async def fetch_all(urls: List[str]) -> List[Dict[str, Any]]:'',
       ''    async with aiohttp.ClientSession() as session:'',
       ''        tasks = [fetch_one(session, url) for url in urls]'',
       ''        return await asyncio.gather(*tasks)'',
       [],
       ''async def fetch_one(session: aiohttp.ClientSession, url: str):'',
       ''    async with session.get(url) as response:'',
       ''        return await response.json()'',
       [],
       ''# Usage: asyncio.run(fetch_all(['url1', 'url2']))''],
     description_cs = lit ''Concurrent HTTP requests using asyncio and aiohttp''\<rparr>\<close>

definition snippet4 :: CodeSnippet where
  \<open>snippet4 =
    \<lparr>id_cs = 4,
     language_cs = lit ''python'',
     title_cs = lit ''Decorator: Retry with Backoff'',
     code_cs = code_text
      [''import functools'',
       ''import time'',
       ''from typing import Callable, TypeVar'',
       [],
       ''T = TypeVar('T')'',
       [],
       ''def retry(max_attempts: int = 3, backoff: float = 1.0):'',
       ''    def decorator(func: Callable[..., T]) -> Callable[..., T]:'',
       ''        @functools.wraps(func)'',
       ''        def wrapper(*args, **kwargs) -> T:'',
       ''            for attempt in range(max_attempts):'',
       ''                try:'',
       ''                    return func(*args, **kwargs)'',
       ''                except Exception as e:'',
       ''                    if attempt == max_attempts - 1:'',
       ''                        raise'',
       ''                    time.sleep(backoff * (2 ** attempt))'',
       ''            raise RuntimeError("Unreachable")'',
       ''        return wrapper'',
       ''    return decorator''],
     description_cs = lit ''A decorator for automatic retry with exponential backoff''\<rparr>\<close>

definition snippet5 :: CodeSnippet where
  \<open>snippet5 =
    \<lparr>id_cs = 5,
     language_cs = lit ''typescript'',
     title_cs = lit ''REST API Client Class'',
     code_cs = code_text
      [''class APIClient {'',
       ''  private baseURL: string;'',
       ''  private headers: HeadersInit;'',
       [],
       ''  constructor(baseURL: string, apiKey?: string) {'',
       ''    this.baseURL = baseURL;'',
       ''    this.headers = {'',
       ''      'Content-Type': 'application/json','',
       ''      ...(apiKey && { 'Authorization': `Bearer ${apiKey}` }),'',
       ''    };'',
       ''  }'',
       [],
       ''  async get<T>(endpoint: string): Promise<T> {'',
       ''    const res = await fetch(`${this.baseURL}${endpoint}`, {'',
       ''      headers: this.headers,'',
       ''    });'',
       ''    if (!res.ok) throw new Error(res.statusText);'',
       ''    return res.json();'',
       ''  }'',
       [],
       ''  async post<T>(endpoint: string, data: unknown): Promise<T> {'',
       ''    const res = await fetch(`${this.baseURL}${endpoint}`, {'',
       ''      method: 'POST','',
       ''      headers: this.headers,'',
       ''      body: JSON.stringify(data),'',
       ''    });'',
       ''    if (!res.ok) throw new Error(res.statusText);'',
       ''    return res.json();'',
       ''  }'',
       ''}''],
     description_cs = lit ''A reusable typed API client for REST endpoints''\<rparr>\<close>

definition snippet6 :: CodeSnippet where
  \<open>snippet6 =
    \<lparr>id_cs = 6,
     language_cs = lit ''typescript'',
     title_cs = lit ''Rate Limiter Utility'',
     code_cs = code_text
      [''class RateLimiter {'',
       ''  private tokens: number;'',
       ''  private lastRefill: number;'',
       ''  private readonly maxTokens: number;'',
       ''  private readonly refillRate: number; // tokens per second'',
       [],
       ''  constructor(maxTokens: number, refillRate: number) {'',
       ''    this.maxTokens = maxTokens;'',
       ''    this.tokens = maxTokens;'',
       ''    this.refillRate = refillRate;'',
       ''    this.lastRefill = Date.now();'',
       ''  }'',
       [],
       ''  async acquire(): Promise<void> {'',
       ''    this.refill();'',
       ''    if (this.tokens < 1) {'',
       ''      const waitTime = (1 / this.refillRate) * 1000;'',
       ''      await new Promise(r => setTimeout(r, waitTime));'',
       ''      return this.acquire();'',
       ''    }'',
       ''    this.tokens--;'',
       ''  }'',
       [],
       ''  private refill(): void {'',
       ''    const now = Date.now();'',
       ''    const elapsed = (now - this.lastRefill) / 1000;'',
       ''    this.tokens = Math.min(this.maxTokens,'',
       ''      this.tokens + elapsed * this.refillRate);'',
       ''    this.lastRefill = now;'',
       ''  }'',
       ''}''],
     description_cs = lit ''Token bucket rate limiter for API calls''\<rparr>\<close>

definition codeTemplates :: "jsstring \<rightharpoonup> CodeSnippet list" where
  "codeTemplates =
    map_of [(lit ''react'', [snippet1, snippet2]),
            (lit ''python'', [snippet3, snippet4]),
            (lit ''api'', [snippet5, snippet6])]"

definition languageOptions :: "(jsstring \<times> jsstring \<times> jsstring) list" where
  \<open>languageOptions =
    [(lit ''react'', lit ''REACT/TS'', lit ''<>''),
     (lit ''python'', lit ''PYTHON'', lit ''#!''),
     (lit ''api'', lit ''API_UTILS'', lit ''{}'')]\<close>

text \<open>
  The pending timers of the panel: the one of \<open>generateCode\<close>, with the draw of
  \<open>Math.random()\<close> in its delay \<open>1000 + Math.random() * 500\<close> and the \<open>selectedLanguage\<close>
  its callback closed over, and the one of \<open>copyToClipboard\<close> (2000 ms).
\<close>

datatype coding_timer = GenerateTimer (draw_c: draw) (language_c: jsstring) | CopiedTimer

text \<open>
  The five \<open>useState\<close> cells of \<open>CodingPanel\<close>, the text last written to the system
  clipboard, the code block that is leaving, the timers that have not fired yet, and
  whether the component is mounted.

  The code block, with the copy and regenerate buttons, is rendered when a snippet is
  there and \<open>isGenerating\<close> is false. It is a child of \<open>AnimatePresence\<close> and has an exit
  animation: when a render no longer shows it, it stays in the document until the
  animation ends, with the handlers of the last render that showed it.
  \<open>leavingBlock\<close> holds the \<open>selectedLanguage\<close> and the snippet of that render.
\<close>

record coding_panel =
  selectedLanguage :: jsstring
  generatedCode :: "CodeSnippet option"
  isGenerating_c :: bool
  copied :: bool
  customPrompt_c :: jsstring
  clipboard :: "jsstring option"
  leavingBlock :: "(jsstring \<times> CodeSnippet) option"
  timers_c :: "coding_timer list"
  mounted_c :: bool

definition coding_initial :: coding_panel where
  "coding_initial =
    \<lparr>selectedLanguage = lit ''react'', generatedCode = None, isGenerating_c = False,
     copied = False, customPrompt_c = [], clipboard = None, leavingBlock = None,
     timers_c = [], mounted_c = True\<rparr>"

text \<open>
  \<open>generateCode\<close> of a render in which \<open>selectedLanguage\<close> was \<open>lang\<close>: sets the flag,
  drops the snippet shown and starts the timer; \<open>d\<close> is the draw of \<open>Math.random()\<close> in
  the delay. It does not read \<open>customPrompt\<close>.
\<close>

definition generateCode :: "draw \<Rightarrow> jsstring \<Rightarrow> coding_panel \<Rightarrow> coding_panel" where
  "generateCode d lang w =
    w\<lparr>isGenerating_c := True, generatedCode := None,
      timers_c := timers_c w @ [GenerateTimer d lang]\<rparr>"

text \<open>The callback of that timer; \<open>r\<close> is its draw of \<open>Math.random()\<close>.\<close>

definition generateCode_timeout :: "jsstring \<Rightarrow> draw \<Rightarrow> coding_panel \<Rightarrow> error + coding_panel" where
  "generateCode_timeout lang r w =
    (case codeTemplates lang of
       None \<Rightarrow> Inl TypeError
     | Some templates \<Rightarrow>
        (let randomCode = templates ! floor_random r (length templates)
         in Inr (w\<lparr>generatedCode := Some randomCode, isGenerating_c := False\<rparr>)))"

text \<open>\<open>copyToClipboard\<close> of a render in which \<open>generatedCode\<close> was \<open>code\<close>.\<close>

definition copyToClipboard :: "CodeSnippet option \<Rightarrow> coding_panel \<Rightarrow> coding_panel" where
  "copyToClipboard code w =
    (case code of
       None \<Rightarrow> w
     | Some c \<Rightarrow> w\<lparr>clipboard := Some (code_cs c), copied := True,
                    timers_c := timers_c w @ [CopiedTimer]\<rparr>)"

text \<open>
  The code block as the render of a state shows it, and the code block that is in the
  document: the one shown or else the one leaving.
\<close>

definition shownBlock :: "coding_panel \<Rightarrow> (jsstring \<times> CodeSnippet) option" where
  "shownBlock w =
    (case generatedCode w of
       None \<Rightarrow> None
     | Some c \<Rightarrow> if isGenerating_c w then None else Some (selectedLanguage w, c))"

definition documentBlock :: "coding_panel \<Rightarrow> (jsstring \<times> CodeSnippet) option" where
  "documentBlock w = (case shownBlock w of None \<Rightarrow> leavingBlock w | Some b \<Rightarrow> Some b)"

text \<open>
  The render after a step from \<open>old\<close> to \<open>new\<close>: a block that \<open>new\<close> shows is not leaving;
  a block that \<open>old\<close> showed and \<open>new\<close> does not show starts to leave.
\<close>

definition render :: "coding_panel \<Rightarrow> coding_panel \<Rightarrow> coding_panel" where
  "render old new =
    new\<lparr>leavingBlock :=
      (case shownBlock new of
         Some b \<Rightarrow> None
       | None \<Rightarrow> (case shownBlock old of None \<Rightarrow> leavingBlock new | Some b \<Rightarrow> Some b))\<rparr>"

text \<open>
  What can happen to the panel. The language buttons are those of \<open>languageOptions\<close>; the
  generate button is disabled while \<open>isGenerating\<close>; the copy and regenerate buttons are
  those of the code block in the document, with the handlers of its render; the exit
  animation of a leaving block ends. Unmounting runs no code of the panel, and the
  setters of a component that is no longer mounted change nothing.
\<close>

datatype coding_event =
    SelectLanguage jsstring
  | TypeContext jsstring
  | ClickGenerateCode draw
  | ClickRegenerate draw
  | ClickCopy
  | BlockExitEnds
  | CodingTimeout nat draw
  | UnmountCoding

fun coding_handle :: "coding_event \<Rightarrow> coding_panel \<Rightarrow> coding_panel" where
  "coding_handle (SelectLanguage l) w =
     (if l \<in> set (map fst languageOptions) then w\<lparr>selectedLanguage := l\<rparr> else w)"
| "coding_handle (TypeContext p) w = w\<lparr>customPrompt_c := p\<rparr>"
| "coding_handle (ClickGenerateCode d) w =
     (if isGenerating_c w then w else generateCode d (selectedLanguage w) w)"
| "coding_handle (ClickRegenerate d) w =
     (case documentBlock w of None \<Rightarrow> w | Some (lang, c) \<Rightarrow> generateCode d lang w)"
| "coding_handle ClickCopy w =
     (case documentBlock w of None \<Rightarrow> w | Some (lang, c) \<Rightarrow> copyToClipboard (Some c) w)"
| "coding_handle BlockExitEnds w = w\<lparr>leavingBlock := None\<rparr>"
| "coding_handle _ w = w"

text \<open>The callback of a pending timer, run on a mounted panel.\<close>

fun coding_callback :: "coding_timer \<Rightarrow> draw \<Rightarrow> coding_panel \<Rightarrow> coding_panel" where
  "coding_callback (GenerateTimer d lang) r w =
     (case generateCode_timeout lang r w of Inl e \<Rightarrow> w | Inr w' \<Rightarrow> w')"
| "coding_callback CopiedTimer r w = w\<lparr>copied := False\<rparr>"

fun coding_step :: "coding_event \<Rightarrow> coding_panel \<Rightarrow> coding_panel" where
  "coding_step UnmountCoding w = w\<lparr>mounted_c := False\<rparr>"
| "coding_step (CodingTimeout k r) w =
     (if k < length (timers_c w)
      then (let w' = w\<lparr>timers_c := take k (timers_c w) @ drop (Suc k) (timers_c w)\<rparr>
            in if mounted_c w then render w (coding_callback (timers_c w ! k) r w') else w')
      else w)"
| "coding_step e w = (if mounted_c w then render w (coding_handle e w) else w)"


section \<open>Timer expiry\<close>

text \<open>The events that are the expiry of a pending timer.\<close>

fun expires_i :: "idea_event \<Rightarrow> bool" where
  "expires_i (IdeaTimeout k r now date) = True"
| "expires_i _ = False"

fun expires_r :: "research_event \<Rightarrow> bool" where
  "expires_r (SearchTimeout k srt r) = True"
| "expires_r _ = False"

fun expires_c :: "coding_event \<Rightarrow> bool" where
  "expires_c (CodingTimeout k r) = True"
| "expires_c _ = False"


section \<open>Properties\<close>

subsection \<open>Auxiliary facts\<close>

lemma bits_0: "bits 0 = 0"
  by (simp add: bits.simps)

lemma bits_pos: "0 < n \<Longrightarrow> bits n = Suc (bits (n div 2))"
  by (simp add: bits.simps [of n])

lemmas draw_eval = floor_random_def comparefn_def round53_def round_shift_def bits_0 bits_pos

lemma bits_lower: "0 < n \<Longrightarrow> 2 ^ (bits n - 1) \<le> n"
proof (induction n rule: bits.induct)
  case (1 n)
  show ?case
  proof (cases "n div 2 = 0")
    case True
    then have "bits n = 1" using 1(2) by (simp add: bits_pos bits_0)
    then show ?thesis using 1(2) by simp
  next
    case False
    then have pos: "0 < n div 2" by simp
    have b: "bits n = Suc (bits (n div 2))" using 1(2) by (rule bits_pos)
    have "0 < bits (n div 2)" using pos by (simp add: bits_pos)
    then have "2 ^ (bits n - 1) = 2 * 2 ^ (bits (n div 2) - 1)"
      using b by (cases "bits (n div 2)") simp_all
    also have "\<dots> \<le> 2 * (n div 2)" using 1(1) [OF _ pos] 1(2) by simp
    also have "\<dots> \<le> n" by simp
    finally show ?thesis .
  qed
qed

lemma round_shift_upper: "2 * (round_shift p s * 2 ^ s) \<le> 2 * p + 2 ^ s"
proof -
  have p: "p = p div 2 ^ s * 2 ^ s + p mod 2 ^ s" by (rule div_mult_mod_eq [symmetric])
  define x where "x = p div 2 ^ s * 2 ^ s"
  define t where "t = p mod 2 ^ s"
  have px: "p = x + t" using p by (simp add: x_def t_def)
  have "round_shift p s * 2 ^ s = x \<or> (round_shift p s * 2 ^ s = x + 2 ^ s \<and> 2 ^ s \<le> 2 * t)"
    by (auto simp: round_shift_def Let_def x_def t_def algebra_simps)
  then show ?thesis using px by auto
qed

text \<open>The rounded product of a draw and \<open>n\<close> stays below \<open>n\<close>.\<close>

lemma round53_less:
  assumes "m < 2 ^ 53" "0 < n"
  shows "round53 (m * n) < n * 2 ^ 53"
proof -
  define p where "p = m * n"
  define s where "s = bits p - 53"
  have pn: "p + n \<le> n * 2 ^ 53"
  proof -
    have "m + 1 \<le> 2 ^ 53" using assms(1) by simp
    then have "(m + 1) * n \<le> 2 ^ 53 * n" by (rule mult_le_mono1)
    then show ?thesis by (simp add: p_def algebra_simps)
  qed
  have s: "(2::nat) ^ s < 2 * n"
  proof (cases "s = 0")
    case True
    then show ?thesis using assms(2) by simp
  next
    case False
    then have bp: "bits p - 1 = s + 52" and pos: "0 < p"
      by (auto simp: s_def bits_0 intro: gr0I)
    have "(2::nat) ^ (s + 52) \<le> p" using bits_lower [OF pos] bp by simp
    also have "p < n * 2 ^ 53" using pn assms(2) by linarith
    finally have "(2::nat) ^ s * 2 ^ 52 < (2 * n) * 2 ^ 52" by (simp add: power_add)
    then show ?thesis by simp
  qed
  have "2 * round53 p \<le> 2 * p + 2 ^ s"
    using round_shift_upper [of p s] by (simp add: round53_def s_def)
  then have "2 * round53 p < 2 * (n * 2 ^ 53)" using s pn by linarith
  then show ?thesis by (simp add: p_def)
qed

lemma floor_random_less:
  assumes "0 < n"
  shows "floor_random d n < n"
proof -
  have m: "unat (mant d) < 2 ^ 53" using unsigned_less [of "mant d", where ?'a = nat] by simp
  have "round53 (unat (mant d) * n) < n * 2 ^ 53" by (rule round53_less [OF m assms])
  also have "n * 2 ^ 53 \<le> n * 2 ^ (53 + shift d)" by (simp add: power_add)
  finally show ?thesis
    unfolding floor_random_def by (simp add: less_mult_imp_div_less)
qed

lemma ideaTemplates_length: "ideaTemplates c = Some xs \<Longrightarrow> length xs = 8"
  by (auto simp: ideaTemplates_def tech_ideas_def business_ideas_def creative_ideas_def
      science_ideas_def social_ideas_def split: if_splits)

lemma ideaTemplates_tech: "ideaTemplates (lit ''tech'') = Some tech_ideas"
  by (simp add: ideaTemplates_def)

lemma selected_member:
  assumes "ideaTemplates c = Some xs"
  shows "xs ! floor_random r (length xs) \<in> set xs"
  using floor_random_less [of "length xs" r] ideaTemplates_length [OF assms]
  by simp

lemma newIdea_text_empty: "newIdea_text x [] = x"
  by (simp add: newIdea_text_def)

lemma trim_empty_iff: "trim q = [] \<longleftrightarrow> (\<forall>c \<in> set q. isWhiteSpace c)"
proof
  assume "trim q = []"
  then have all: "\<forall>x \<in> set (dropWhile isWhiteSpace q). isWhiteSpace x"
    by (simp add: trim_def dropWhile_eq_Nil_conv)
  have "dropWhile isWhiteSpace q = []"
  proof (rule ccontr)
    assume ne: "dropWhile isWhiteSpace q \<noteq> []"
    then have "\<not> isWhiteSpace (hd (dropWhile isWhiteSpace q))" by (rule hd_dropWhile)
    moreover have "hd (dropWhile isWhiteSpace q) \<in> set (dropWhile isWhiteSpace q)"
      using ne by simp
    ultimately show False using all by blast
  qed
  then show "\<forall>c \<in> set q. isWhiteSpace c" by (simp add: dropWhile_eq_Nil_conv)
next
  assume "\<forall>c \<in> set q. isWhiteSpace c"
  then have "dropWhile isWhiteSpace q = []" by (simp add: dropWhile_eq_Nil_conv)
  then show "trim q = []" by (simp only: trim_def rev.simps dropWhile.simps)
qed

lemma exchange_mset: "mset (exchange i j xs) = mset xs"
  by (simp add: exchange_def mset_swap)

lemma run_engine_mset: "mset (run_engine e rnd n xs) = mset xs"
  by (induction e arbitrary: n xs) (simp_all add: exchange_mset)

lemma sort_random_mset: "mset (sort_random e rnd xs) = mset xs"
  by (simp add: sort_random_def run_engine_mset)

lemma pool_ids: "map id_rr mockResearchResults = [1, 2, 3, 4, 5]"
  by (simp add: mockResearchResults_def)

lemma codeTemplates_length: "codeTemplates l = Some xs \<Longrightarrow> length xs = 2"
  by (auto simp: codeTemplates_def split: if_splits)

lemma codeTemplates_react: "codeTemplates (lit ''react'') = Some [snippet1, snippet2]"
  by (simp add: codeTemplates_def)

lemma trim_ai: "trim (lit ''ai'') \<noteq> []"
  by (simp add: trim_def lit_def isWhiteSpace_def)

lemma idea_step_keeps_timers:
  "\<not> expires_i e \<Longrightarrow> take (length (timers_i w)) (timers_i (idea_step e w)) = timers_i w"
  by (cases e) (simp_all add: generateIdea_def toggleSaved_def deleteIdea_def clearAll_def)

lemma research_step_keeps_timers:
  "\<not> expires_r e \<Longrightarrow> take (length (timers_r w)) (timers_r (research_step e w)) = timers_r w"
  by (cases e) (simp_all add: performSearch_def handleKeyPress_def)

lemma coding_step_keeps_timers:
  "\<not> expires_c e \<Longrightarrow> take (length (timers_c w)) (timers_c (coding_step e w)) = timers_c w"
  by (cases e)
    (simp_all add: generateCode_def copyToClipboard_def render_def split: option.splits prod.splits)

lemma idea_step_expiry:
  "timers_i (idea_step (IdeaTimeout k r now date) w) =
    (if k < length (timers_i w) then take k (timers_i w) @ drop (Suc k) (timers_i w)
     else timers_i w)"
  by (simp add: Let_def generateIdea_timeout_def split: sum.splits option.splits)

lemma research_step_expiry:
  "timers_r (research_step (SearchTimeout k srt r) w) =
    (if k < length (timers_r w) then take k (timers_r w) @ drop (Suc k) (timers_r w)
     else timers_r w)"
  by (simp add: Let_def performSearch_timeout_def)

lemma coding_callback_timers: "timers_c (coding_callback t r w) = timers_c w"
  by (cases t) (simp_all add: generateCode_timeout_def Let_def split: option.splits)

lemma coding_step_expiry:
  "timers_c (coding_step (CodingTimeout k r) w) =
    (if k < length (timers_c w) then take k (timers_c w) @ drop (Suc k) (timers_c w)
     else timers_c w)"
  by (simp add: Let_def render_def coding_callback_timers)

lemma idea_step_unmounted:
  "\<not> mounted_i w \<Longrightarrow> idea_step e w = w\<lparr>timers_i := timers_i (idea_step e w)\<rparr>"
  by (cases e) (simp_all add: Let_def)

lemma research_step_unmounted:
  "\<not> mounted_r w \<Longrightarrow> research_step e w = w\<lparr>timers_r := timers_r (research_step e w)\<rparr>"
  by (cases e) (simp_all add: Let_def)

lemma coding_step_unmounted:
  "\<not> mounted_c w \<Longrightarrow> coding_step e w = w\<lparr>timers_c := timers_c (coding_step e w)\<rparr>"
  by (cases e) (simp_all add: Let_def)

lemma research_step_inv:
  assumes "isSearching w \<longrightarrow> results w = []"
  shows "isSearching (research_step e w) \<longrightarrow> results (research_step e w) = []"
  using assms
  by (cases e) (auto simp: performSearch_def handleKeyPress_def performSearch_timeout_def Let_def)

lemma research_fold_inv:
  assumes "isSearching w \<longrightarrow> results w = []"
  shows "isSearching (foldl (\<lambda>w e. research_step e w) w es)
    \<longrightarrow> results (foldl (\<lambda>w e. research_step e w) w es) = []"
  using assms
proof (induction es arbitrary: w)
  case Nil
  then show ?case by simp
next
  case (Cons e es)
  show ?case using Cons.IH [OF research_step_inv [OF Cons.prems]] by simp
qed


subsection \<open>Selection from the template store\<close>

text \<open>
  C1 (as amended). For every key of \<open>ideaTemplates\<close> and every draw of \<open>Math.random()\<close>,
  the template that the callback of \<open>generateIdea\<close> selects is a member of that key's
  list, the callback returns, and the idea it prepends carries \<open>newIdea_text\<close> of that
  template: the template itself, a member of the list, when \<open>customPrompt\<close> is empty.
  The list of \<open>tech\<close> has exactly 8 entries.
\<close>

theorem generateIdea_selects_member:
  assumes "ideaTemplates c = Some categoryIdeas"
  shows "categoryIdeas ! floor_random r (length categoryIdeas) \<in> set categoryIdeas
    \<and> generateIdea_timeout (IdeaTimer d c p) r now date w =
        Inr (w\<lparr>ideas :=
               \<lparr>id_gi = now,
                text_gi = newIdea_text (categoryIdeas ! floor_random r (length categoryIdeas)) p,
                category_gi = c, timestamp_gi = date, saved_gi = False\<rparr> # ideas w,
              isGenerating_i := False\<rparr>)
    \<and> newIdea_text (categoryIdeas ! floor_random r (length categoryIdeas)) [] \<in> set categoryIdeas
    \<and> ideaTemplates (lit ''tech'') = Some tech_ideas \<and> length tech_ideas = 8"
  using selected_member [OF assms] assms ideaTemplates_tech
    ideaTemplates_length [OF ideaTemplates_tech]
  by (simp add: generateIdea_timeout_def newIdea_text_empty)

text \<open>
  The category \<open>tech\<close>, no context, the draw \<open>1/2\<close> (the mantissa \<open>2 ^ 52\<close>): the fifth of
  the eight templates.
\<close>

theorem generateIdea_selects_member_witness:
  "tech_ideas ! floor_random (Draw 0x10000000000000 0) (length tech_ideas) \<in> set tech_ideas
   \<and> generateIdea_timeout (IdeaTimer (Draw 0 0) (lit ''tech'') []) (Draw 0x10000000000000 0) 5 6 idea_initial =
        Inr (idea_initial\<lparr>ideas :=
               [\<lparr>id_gi = 5,
                text_gi = lit ''An AR app that overlays repair instructions on broken appliances'',
                category_gi = lit ''tech'', timestamp_gi = 6, saved_gi = False\<rparr>],
              isGenerating_i := False\<rparr>)
   \<and> lit ''An AR app that overlays repair instructions on broken appliances'' \<in> set tech_ideas"
proof -
  have len: "length tech_ideas = 8" by (simp add: tech_ideas_def)
  have "floor_random (Draw 0x10000000000000 0) 8 = 4" by (simp add: draw_eval)
  then have sel: "tech_ideas ! floor_random (Draw 0x10000000000000 0) 8
      = lit ''An AR app that overlays repair instructions on broken appliances''"
    by (simp add: tech_ideas_def)
  have ini: "ideas idea_initial = []" by (simp add: idea_initial_def)
  show ?thesis
    using generateIdea_selects_member [OF ideaTemplates_tech, of "Draw 0x10000000000000 0"
        "Draw 0 0" "[]" 5 6 idea_initial]
    by (simp add: len sel ini newIdea_text_empty)
qed

text \<open>
  With the context \<open>x\<close> typed before the click, the text of the idea that the panel shows
  is the first template of \<open>tech\<close> followed by the annotation, which is none of the
  eight strings of the list.
\<close>

theorem generateIdea_text_counterexample:
  \<open>map text_gi (ideas (idea_step (IdeaTimeout 0 (Draw 0 0) 0 0) (idea_step (ClickGenerate (Draw 0 0))
      (idea_step (TypePrompt (lit ''x'')) idea_initial))))
     = [lit ''An AI-powered tool that automatically generates documentation from code comments ''
        @ [0x2014] @ lit '' customized for: "x"'']
   \<and> lit ''An AI-powered tool that automatically generates documentation from code comments ''
        @ [0x2014] @ lit '' customized for: "x"'' \<notin> set tech_ideas\<close>
  apply (rule conjI)
   apply (simp add: idea_initial_def generateIdea_def generateIdea_timeout_def ideaTemplates_tech)
   apply (simp add: draw_eval newIdea_text_def tech_ideas_def lit_def)
  apply (simp add: tech_ideas_def lit_def)
  done


subsection \<open>Teardown and pending timers\<close>

text \<open>
  C2 (as amended). No panel cancels a wait. Unmounting leaves the pending timers of each
  of the three panels as they are, and no event other than the expiry of a timer removes
  a pending timer: after any other event the timers that were pending are still pending,
  in their order, and the expiry of a timer takes that timer alone off the pending ones.
  Once a panel is unmounted no event changes any of its cells; the expiry of a timer
  then only takes that timer off the pending ones.
\<close>

theorem unmount_cancels_no_timer:
  "timers_i (idea_step UnmountIdeas wi) = timers_i wi
   \<and> timers_r (research_step UnmountResearch wr) = timers_r wr
   \<and> timers_c (coding_step UnmountCoding wc) = timers_c wc
   \<and> (\<not> expires_i ei \<longrightarrow> take (length (timers_i wi)) (timers_i (idea_step ei wi)) = timers_i wi)
   \<and> (\<not> expires_r er \<longrightarrow> take (length (timers_r wr)) (timers_r (research_step er wr)) = timers_r wr)
   \<and> (\<not> expires_c ec \<longrightarrow> take (length (timers_c wc)) (timers_c (coding_step ec wc)) = timers_c wc)
   \<and> (\<not> mounted_i wi \<longrightarrow> idea_step ei wi = wi\<lparr>timers_i := timers_i (idea_step ei wi)\<rparr>)
   \<and> (\<not> mounted_r wr \<longrightarrow> research_step er wr = wr\<lparr>timers_r := timers_r (research_step er wr)\<rparr>)
   \<and> (\<not> mounted_c wc \<longrightarrow> coding_step ec wc = wc\<lparr>timers_c := timers_c (coding_step ec wc)\<rparr>)
   \<and> timers_i (idea_step (IdeaTimeout k r now date) wi) =
        (if k < length (timers_i wi) then take k (timers_i wi) @ drop (Suc k) (timers_i wi)
         else timers_i wi)
   \<and> timers_r (research_step (SearchTimeout k srt r) wr) =
        (if k < length (timers_r wr) then take k (timers_r wr) @ drop (Suc k) (timers_r wr)
         else timers_r wr)
   \<and> timers_c (coding_step (CodingTimeout k r) wc) =
        (if k < length (timers_c wc) then take k (timers_c wc) @ drop (Suc k) (timers_c wc)
         else timers_c wc)"
  using idea_step_keeps_timers [of ei wi] research_step_keeps_timers [of er wr]
    coding_step_keeps_timers [of ec wc] idea_step_unmounted [of wi ei]
    research_step_unmounted [of wr er] coding_step_unmounted [of wc ec]
    idea_step_expiry [of k r now date wi] research_step_expiry [of k srt r wr]
    coding_step_expiry [of k r wc]
  by simp

text \<open>
  Each panel unmounted in the middle of a wait; then, for the idea panel, the expiry of
  the timer on the unmounted panel.
\<close>

theorem unmount_cancels_no_timer_witness:
  "timers_i (idea_step UnmountIdeas (idea_step (ClickGenerate (Draw 0 0)) idea_initial))
     = [IdeaTimer (Draw 0 0) (lit ''tech'') []]
   \<and> timers_r (research_step UnmountResearch (research_step (KeyPress (lit ''Enter''))
        (research_initial\<lparr>query := lit ''ai''\<rparr>))) = [1500]
   \<and> timers_c (coding_step UnmountCoding (coding_step (ClickGenerateCode (Draw 0 0)) coding_initial))
     = [GenerateTimer (Draw 0 0) (lit ''react'')]
   \<and> idea_step (IdeaTimeout 0 (Draw 0 0) 0 0)
        (idea_step UnmountIdeas (idea_step (ClickGenerate (Draw 0 0)) idea_initial))
     = idea_initial\<lparr>isGenerating_i := True, mounted_i := False\<rparr>"
proof -
  have i: "timers_i (idea_step (ClickGenerate (Draw 0 0)) idea_initial)
      = [IdeaTimer (Draw 0 0) (lit ''tech'') []]"
    by (simp add: idea_initial_def generateIdea_def)
  have r: "timers_r (research_step (KeyPress (lit ''Enter'')) (research_initial\<lparr>query := lit ''ai''\<rparr>))
      = [1500]"
    using trim_ai by (simp add: research_initial_def handleKeyPress_def performSearch_def)
  have c: "timers_c (coding_step (ClickGenerateCode (Draw 0 0)) coding_initial)
      = [GenerateTimer (Draw 0 0) (lit ''react'')]"
    by (simp add: coding_initial_def generateCode_def render_def)
  show ?thesis
    using unmount_cancels_no_timer [of "idea_step (ClickGenerate (Draw 0 0)) idea_initial"
        "research_step (KeyPress (lit ''Enter'')) (research_initial\<lparr>query := lit ''ai''\<rparr>)"
        "coding_step (ClickGenerateCode (Draw 0 0)) coding_initial"
        UnmountIdeas UnmountResearch UnmountCoding]
      unmount_cancels_no_timer [of
        "idea_step UnmountIdeas (idea_step (ClickGenerate (Draw 0 0)) idea_initial)"
        "research_initial\<lparr>mounted_r := False\<rparr>" "coding_initial\<lparr>mounted_c := False\<rparr>"
        "IdeaTimeout 0 (Draw 0 0) 0 0" UnmountResearch UnmountCoding]
    apply (simp only: i r c)
    apply (simp add: idea_initial_def generateIdea_def)
    done
qed

text \<open>
  A click on generate (a search, for the research panel) and then the unmount: in each
  panel the timer of the wait is still pending.
\<close>

theorem unmount_leaves_timer_counterexample:
  "timers_i (idea_step UnmountIdeas (idea_step (ClickGenerate (Draw 0 0)) idea_initial))
     = [IdeaTimer (Draw 0 0) (lit ''tech'') []]
   \<and> timers_r (research_step UnmountResearch (research_step ClickSearch
        (research_step (TypeQuery (lit ''ai'')) research_initial))) = [1500]
   \<and> timers_c (coding_step UnmountCoding (coding_step (ClickGenerateCode (Draw 0 0)) coding_initial))
     = [GenerateTimer (Draw 0 0) (lit ''react'')]"
  using trim_ai
  by (simp add: idea_initial_def generateIdea_def research_initial_def
      performSearch_def coding_initial_def generateCode_def render_def)


subsection \<open>The context annotation\<close>

text \<open>
  C3 (as amended). In the idea panel, whenever the \<open>customPrompt\<close> that \<open>generateIdea\<close>
  closed over is not empty, the text of the new idea is the selected template, a space,
  an em dash, the words \<open>customized for:\<close> and the context between double quotes: plain
  concatenation.
\<close>

theorem generateIdea_appends_context:
  assumes "customPrompt \<noteq> []" and "ideaTemplates c = Some categoryIdeas"
  shows \<open>newIdea_text randomIdea customPrompt =
      randomIdea @ lit '' '' @ [0x2014] @ lit '' customized for: "'' @ customPrompt @ lit ''"''
    \<and> generateIdea_timeout (IdeaTimer d c customPrompt) r now date w =
        Inr (w\<lparr>ideas :=
               \<lparr>id_gi = now,
                text_gi = categoryIdeas ! floor_random r (length categoryIdeas)
                  @ lit '' '' @ [0x2014] @ lit '' customized for: "'' @ customPrompt @ lit ''"'',
                category_gi = c, timestamp_gi = date, saved_gi = False\<rparr> # ideas w,
              isGenerating_i := False\<rparr>)\<close>
  using assms by (simp add: generateIdea_timeout_def newIdea_text_def)

text \<open>
  The text \<open>A tool that X\<close> with the context \<open>for students\<close>, and a run of the panel
  with that context typed before the click.
\<close>

theorem generateIdea_appends_context_witness:
  \<open>newIdea_text (lit ''A tool that X'') (lit ''for students'') =
      lit ''A tool that X '' @ [0x2014] @ lit '' customized for: "for students"''
   \<and> map text_gi (ideas (idea_step (IdeaTimeout 0 (Draw 0 0) 0 0) (idea_step (ClickGenerate (Draw 0 0))
      (idea_step (TypePrompt (lit ''for students'')) idea_initial))))
     = [lit ''An AI-powered tool that automatically generates documentation from code comments ''
        @ [0x2014] @ lit '' customized for: "for students"'']\<close>
proof -
  have ne: "lit ''for students'' \<noteq> []" by (simp add: lit_def)
  have len: "length tech_ideas = 8" by (simp add: tech_ideas_def)
  have k: "floor_random (Draw 0 0) 8 = 0" by (simp add: draw_eval)
  have t0: "tech_ideas ! floor_random (Draw 0 0) (length tech_ideas) =
    lit ''An AI-powered tool that automatically generates documentation from code comments''"
    unfolding len k by (simp add: tech_ideas_def)
  show ?thesis
    using generateIdea_appends_context [OF ne ideaTemplates_tech, of "lit ''A tool that X''"
        "Draw 0 0" "Draw 0 0" 0 0
        "idea_initial\<lparr>customPrompt_i := lit ''for students'', isGenerating_i := True\<rparr>"]
    apply (simp add: t0 idea_initial_def generateIdea_def)
    apply (simp add: lit_def)
    done
qed

text \<open>
  The code panel with the context \<open>for students\<close> typed before the click shows the same
  snippet as without it, the first of the table as it stands there; its code is not that
  code with the annotation appended.
\<close>

theorem generateCode_context_counterexample:
  "generatedCode (coding_step (CodingTimeout 0 (Draw 0 0)) (coding_step (ClickGenerateCode (Draw 0 0))
      (coding_step (TypeContext (lit ''for students'')) coding_initial))) = Some snippet1
   \<and> generatedCode (coding_step (CodingTimeout 0 (Draw 0 0)) (coding_step (ClickGenerateCode (Draw 0 0))
      coding_initial)) = Some snippet1
   \<and> code_cs snippet1 \<noteq> newIdea_text (code_cs snippet1) (lit ''for students'')"
  apply (intro conjI)
    apply (simp add: coding_initial_def generateCode_def generateCode_timeout_def
      codeTemplates_def render_def shownBlock_def draw_eval)
   apply (simp add: coding_initial_def generateCode_def generateCode_timeout_def
      codeTemplates_def render_def shownBlock_def draw_eval)
  apply (simp add: newIdea_text_def lit_def)
  done


subsection \<open>Blank queries\<close>

text \<open>
  C4. When every code unit of the query is white space (the empty query included),
  \<open>performSearch\<close> changes nothing: \<open>isSearching\<close> and the results stay as they are and no
  timer is started, whether the search comes from the button or from the Enter key.
\<close>

theorem performSearch_blank_noop:
  assumes "\<forall>c \<in> set (query w). isWhiteSpace c"
  shows "performSearch w = w \<and> research_step ClickSearch w = w
    \<and> research_step (KeyPress (lit ''Enter'')) w = w"
  using assms by (simp add: performSearch_def handleKeyPress_def trim_empty_iff)

text \<open>A query of a space, a tab and a no-break space, and the empty query.\<close>

theorem performSearch_blank_noop_witness:
  "performSearch (research_initial\<lparr>query := [0x20, 0x09, 0xA0]\<rparr>)
      = research_initial\<lparr>query := [0x20, 0x09, 0xA0]\<rparr>
   \<and> research_step ClickSearch (research_initial\<lparr>query := [0x20, 0x09, 0xA0]\<rparr>)
      = research_initial\<lparr>query := [0x20, 0x09, 0xA0]\<rparr>
   \<and> research_step (KeyPress (lit ''Enter'')) (research_initial\<lparr>query := [0x20, 0x09, 0xA0]\<rparr>)
      = research_initial\<lparr>query := [0x20, 0x09, 0xA0]\<rparr>
   \<and> performSearch research_initial = research_initial"
  using performSearch_blank_noop [of "research_initial\<lparr>query := [0x20, 0x09, 0xA0]\<rparr>"]
    performSearch_blank_noop [of research_initial]
  by (simp add: isWhiteSpace_def research_initial_def)


subsection \<open>The result set of a search\<close>

text \<open>
  C5. Whatever the engine of the sort, the draws of the comparator and the draw of the
  bound, the results that the callback of \<open>performSearch\<close> sets number between 3 and 5,
  all belong to \<open>mockResearchResults\<close>, and no id occurs twice among them.
\<close>

theorem search_results_sized_distinct:
  "3 \<le> length (results (performSearch_timeout (sort_random e rnd) r w))
    \<and> length (results (performSearch_timeout (sort_random e rnd) r w)) \<le> 5
    \<and> set (results (performSearch_timeout (sort_random e rnd) r w)) \<subseteq> set mockResearchResults
    \<and> distinct (map id_rr (results (performSearch_timeout (sort_random e rnd) r w)))"
proof -
  let ?s = "sort_random e rnd mockResearchResults"
  let ?k = "3 + floor_random r 3"
  have perm: "mset ?s = mset mockResearchResults" by (rule sort_random_mset)
  have res: "results (performSearch_timeout (sort_random e rnd) r w) = take ?k ?s"
    by (simp add: performSearch_timeout_def)
  have len: "length ?s = 5"
    using mset_eq_length [OF perm] pool_ids length_map [of id_rr mockResearchResults] by simp
  have k: "floor_random r 3 < 3" using floor_random_less [of 3 r] by simp
  have sub: "set (take ?k ?s) \<subseteq> set mockResearchResults"
    using set_take_subset [of ?k ?s] mset_eq_setD [OF perm] by simp
  have "mset (map id_rr ?s) = mset (map id_rr mockResearchResults)"
    using perm by simp
  then have "distinct (map id_rr ?s) = distinct (map id_rr mockResearchResults)"
    by (rule mset_eq_imp_distinct_iff)
  then have "distinct (map id_rr ?s)" by (simp add: pool_ids)
  then have dist: "distinct (map id_rr (take ?k ?s))"
    by (simp add: take_map [symmetric])
  show ?thesis using res len k sub dist by simp
qed

text \<open>
  The insertion engine on the five items, with draws of \<open>1/4\<close> and \<open>3/4\<close> for the
  comparator, and for the bound the draw \<open>6004799503160661 / 2 ^ 53\<close>, whose product
  with 3 rounds up to 2: five results.
\<close>

theorem search_results_sized_distinct_witness:
  "map id_rr (results (performSearch_timeout
      (sort_random (insertion_engine 5)
         (\<lambda>n. [Draw 0x8000000000000 0, Draw 0x18000000000000 0, Draw 0x8000000000000 0,
               Draw 0x8000000000000 0, Draw 0x18000000000000 0, Draw 0x8000000000000 0,
               Draw 0x18000000000000 0, Draw 0x8000000000000 0, Draw 0x8000000000000 0,
               Draw 0x18000000000000 0] ! n))
      (Draw 6004799503160661 0) research_initial)) = [2, 4, 1, 5, 3]
   \<and> set (results (performSearch_timeout
      (sort_random (insertion_engine 5)
         (\<lambda>n. [Draw 0x8000000000000 0, Draw 0x18000000000000 0, Draw 0x8000000000000 0,
               Draw 0x8000000000000 0, Draw 0x18000000000000 0, Draw 0x8000000000000 0,
               Draw 0x18000000000000 0, Draw 0x8000000000000 0, Draw 0x8000000000000 0,
               Draw 0x18000000000000 0] ! n))
      (Draw 6004799503160661 0) research_initial)) \<subseteq> set mockResearchResults"
proof -
  let ?rnd = "\<lambda>n. [Draw 0x8000000000000 0, Draw 0x18000000000000 0, Draw 0x8000000000000 0,
               Draw 0x8000000000000 0, Draw 0x18000000000000 0, Draw 0x8000000000000 0,
               Draw 0x18000000000000 0, Draw 0x8000000000000 0, Draw 0x8000000000000 0,
               Draw 0x18000000000000 0] ! n"
  have c: "comparefn (Draw 0x8000000000000 0) = - 1 / 4" "comparefn (Draw 0x18000000000000 0) = 1 / 4"
    by (simp_all add: draw_eval)
  have k: "floor_random (Draw 6004799503160661 0) 3 = 2" by (simp add: draw_eval)
  have srt: "map id_rr (sort_random (insertion_engine 5) ?rnd mockResearchResults) = [2, 4, 1, 5, 3]"
    by (simp add: sort_random_def insertion_engine_def exchange_def c mockResearchResults_def
        eval_nat_numeral)
  have ids: "map id_rr (results (performSearch_timeout (sort_random (insertion_engine 5) ?rnd)
      (Draw 6004799503160661 0) research_initial)) = [2, 4, 1, 5, 3]"
    by (simp add: performSearch_timeout_def k take_map [symmetric] srt)
  show ?thesis
    using search_results_sized_distinct [of "insertion_engine 5" ?rnd "Draw 6004799503160661 0"
        research_initial] ids
    by simp
qed


subsection \<open>Toggling the saved flag\<close>

text \<open>
  C6. For every session log of the idea panel and every id, \<open>toggleSaved\<close> applied twice
  with that id gives back the log it started from: the \<open>saved\<close> flag of each entry with
  the id returns to its value and nothing else changes.
\<close>

theorem toggleSaved_involution: "toggleSaved i (toggleSaved i w) = w"
  by (simp add: toggleSaved_def comp_def map_idI)


subsection \<open>Removing and clearing ideas\<close>

text \<open>
  C7. In the idea panel, after an entry with an id is put at the front of the log and
  \<open>deleteIdea\<close> is called with that id, the log holds no entry with it; and
  \<open>setIdeas([])\<close> leaves the empty log from every state.
\<close>

theorem delete_after_append_and_clear:
  "i \<notin> id_gi ` set (ideas (deleteIdea i (w\<lparr>ideas := e\<lparr>id_gi := i\<rparr> # ideas w\<rparr>)))
   \<and> ideas (clearAll w) = []"
  by (auto simp: deleteIdea_def clearAll_def)

text \<open>
  An idea generated at time 7 and then deleted by its id, and two ideas generated and
  then cleared.
\<close>

theorem delete_after_append_and_clear_witness:
  "ideas (idea_step (ClickDelete 7) (idea_step (IdeaTimeout 0 (Draw 0 0) 7 7)
      (idea_step (ClickGenerate (Draw 0 0)) idea_initial))) = []
   \<and> length (ideas (idea_step (IdeaTimeout 0 (Draw 0 0) 7 7)
        (idea_step (ClickGenerate (Draw 0 0)) idea_initial))) = 1
   \<and> ideas (idea_step ClickClearAll (idea_step (IdeaTimeout 0 (Draw 0x10000000000000 0) 9 9)
        (idea_step (ClickGenerate (Draw 0 0)) (idea_step (IdeaTimeout 0 (Draw 0 0) 7 7)
          (idea_step (ClickGenerate (Draw 0 0)) idea_initial))))) = []"
  using delete_after_append_and_clear [where i = 7 and w = idea_initial
      and e = "\<lparr>id_gi = 7, text_gi = tech_ideas ! 0, category_gi = lit ''tech'',
        timestamp_gi = 7, saved_gi = False\<rparr>"]
  by (simp add: idea_initial_def generateIdea_def generateIdea_timeout_def ideaTemplates_tech
      deleteIdea_def clearAll_def)


subsection \<open>The snippet of the code panel\<close>

text \<open>
  C8. The code panel keeps its snippet in the one cell \<open>generatedCode\<close>, which is empty
  or holds a single snippet. From a mounted panel that is not generating, a generation
  that settles leaves the snippet it selected; the next \<open>generateCode\<close> empties the cell,
  and when it settles the cell holds the snippet of the second selection, a member of
  the table's list, whatever the first one was.
\<close>

theorem regenerate_replaces_snippet:
  assumes "mounted_c w" and "\<not> isGenerating_c w"
    and "codeTemplates (selectedLanguage w) = Some templates"
  shows "generatedCode (coding_step (CodingTimeout (length (timers_c w)) r1)
            (coding_step (ClickGenerateCode d1) w))
      = Some (templates ! floor_random r1 (length templates))
    \<and> generatedCode (coding_step (ClickRegenerate d2)
          (coding_step (CodingTimeout (length (timers_c w)) r1)
            (coding_step (ClickGenerateCode d1) w))) = None
    \<and> generatedCode (coding_step (CodingTimeout (length (timers_c w)) r2)
          (coding_step (ClickRegenerate d2)
            (coding_step (CodingTimeout (length (timers_c w)) r1)
              (coding_step (ClickGenerateCode d1) w))))
      = Some (templates ! floor_random r2 (length templates))
    \<and> templates ! floor_random r2 (length templates) \<in> set templates"
proof -
  have "floor_random r2 (length templates) < length templates"
    using floor_random_less [of "length templates" r2] codeTemplates_length [OF assms(3)] by simp
  then show ?thesis
    using assms
    by (simp add: generateCode_def generateCode_timeout_def nth_append render_def
        shownBlock_def documentBlock_def)
qed

text \<open>From the first render: the second snippet of \<open>react\<close>, then the first.\<close>

theorem regenerate_replaces_snippet_witness:
  "generatedCode (coding_step (CodingTimeout 0 (Draw 0x18000000000000 0))
      (coding_step (ClickGenerateCode (Draw 0 0)) coding_initial)) = Some snippet2
   \<and> generatedCode (coding_step (ClickRegenerate (Draw 0 0))
        (coding_step (CodingTimeout 0 (Draw 0x18000000000000 0))
          (coding_step (ClickGenerateCode (Draw 0 0)) coding_initial))) = None
   \<and> generatedCode (coding_step (CodingTimeout 0 (Draw 0x8000000000000 0))
        (coding_step (ClickRegenerate (Draw 0 0))
          (coding_step (CodingTimeout 0 (Draw 0x18000000000000 0))
            (coding_step (ClickGenerateCode (Draw 0 0)) coding_initial)))) = Some snippet1"
proof -
  have a: "mounted_c coding_initial" "\<not> isGenerating_c coding_initial"
    "codeTemplates (selectedLanguage coding_initial) = Some [snippet1, snippet2]"
    "timers_c coding_initial = []"
    by (simp_all add: coding_initial_def codeTemplates_react)
  have k: "floor_random (Draw 0x18000000000000 0) (Suc (Suc 0)) = 1"
    "floor_random (Draw 0x8000000000000 0) (Suc (Suc 0)) = 0"
    by (simp_all add: draw_eval)
  show ?thesis
    using regenerate_replaces_snippet [OF a(1,2,3), of "Draw 0x18000000000000 0" "Draw 0 0"
        "Draw 0 0" "Draw 0x8000000000000 0"]
    by (simp add: a(4) k)
qed


subsection \<open>The query and the results\<close>

text \<open>
  C9. For two queries that are not blank, a search run from the same state with the same
  outcome of the sort and the same draw sets the same results: those that the sort and
  the draw fix, in which the query has no part.
\<close>

theorem results_independent_of_query:
  assumes "trim q1 \<noteq> []" and "trim q2 \<noteq> []" and "mounted_r w"
  shows "results (research_step (SearchTimeout (length (timers_r w)) srt r)
            (research_step (KeyPress (lit ''Enter'')) (w\<lparr>query := q1\<rparr>)))
      = results (research_step (SearchTimeout (length (timers_r w)) srt r)
            (research_step (KeyPress (lit ''Enter'')) (w\<lparr>query := q2\<rparr>)))
    \<and> results (research_step (SearchTimeout (length (timers_r w)) srt r)
            (research_step (KeyPress (lit ''Enter'')) (w\<lparr>query := q1\<rparr>)))
      = take (3 + floor_random r 3) (srt mockResearchResults)
    \<and> results (performSearch_timeout srt r (performSearch (w\<lparr>query := q1\<rparr>)))
      = results (performSearch_timeout srt r (performSearch (w\<lparr>query := q2\<rparr>)))"
  using assms
  by (simp add: handleKeyPress_def performSearch_def performSearch_timeout_def)

text \<open>The queries \<open>ai\<close> and \<open>market trends\<close>, the pool reversed by the sort, the draw \<open>1/2\<close>.\<close>

theorem results_independent_of_query_witness:
  "map id_rr (results (research_step (SearchTimeout 0 rev (Draw 0x10000000000000 0))
      (research_step (KeyPress (lit ''Enter'')) (research_initial\<lparr>query := lit ''ai''\<rparr>))))
     = [5, 4, 3, 2]
   \<and> map id_rr (results (research_step (SearchTimeout 0 rev (Draw 0x10000000000000 0))
      (research_step (KeyPress (lit ''Enter'')) (research_initial\<lparr>query := lit ''market trends''\<rparr>))))
     = [5, 4, 3, 2]"
proof -
  have q: "trim (lit ''ai'') \<noteq> []" "trim (lit ''market trends'') \<noteq> []"
    by (simp_all add: trim_def lit_def isWhiteSpace_def)
  have m: "mounted_r research_initial" "timers_r research_initial = []"
    by (simp_all add: research_initial_def)
  have k: "floor_random (Draw 0x10000000000000 0) 3 = 1" by (simp add: draw_eval)
  have ids: "map id_rr (take (3 + floor_random (Draw 0x10000000000000 0) 3) (rev mockResearchResults))
      = [5, 4, 3, 2]"
    by (simp add: k mockResearchResults_def)
  show ?thesis
    using results_independent_of_query [OF q m(1), of rev "Draw 0x10000000000000 0"]
      results_independent_of_query [OF q(2) q(1) m(1), of rev "Draw 0x10000000000000 0"]
    by (simp add: m(2) ids)
qed


subsection \<open>Results while searching\<close>

text \<open>
  C10. In every state that the research panel reaches from its first render, whatever
  the events, the result list is empty whenever \<open>isSearching\<close> is true. A handler or a
  timer callback is one step; its setters take effect together.
\<close>

theorem searching_shows_no_results:
  "isSearching (research_run es) \<longrightarrow> results (research_run es) = []"
  unfolding research_run_def
  by (rule research_fold_inv) (simp add: research_initial_def)

text \<open>
  A search that settles with results, and a second search started by the Enter key:
  searching again, with no result shown.
\<close>

theorem searching_shows_no_results_witness:
  "isSearching (research_run
      [TypeQuery (lit ''ai''), ClickSearch, SearchTimeout 0 rev (Draw 0x10000000000000 0), KeyPress (lit ''Enter'')])
   \<and> results (research_run
      [TypeQuery (lit ''ai''), ClickSearch, SearchTimeout 0 rev (Draw 0x10000000000000 0), KeyPress (lit ''Enter'')]) = []
   \<and> results (research_run
      [TypeQuery (lit ''ai''), ClickSearch, SearchTimeout 0 rev (Draw 0x10000000000000 0)]) \<noteq> []"
proof -
  have s: "isSearching (research_run
      [TypeQuery (lit ''ai''), ClickSearch, SearchTimeout 0 rev (Draw 0x10000000000000 0), KeyPress (lit ''Enter'')])"
    using trim_ai by (simp add: research_run_def research_initial_def performSearch_def
        handleKeyPress_def performSearch_timeout_def)
  have n: "results (research_run
      [TypeQuery (lit ''ai''), ClickSearch, SearchTimeout 0 rev (Draw 0x10000000000000 0)]) \<noteq> []"
    using trim_ai by (simp add: research_run_def research_initial_def performSearch_def
        performSearch_timeout_def mockResearchResults_def)
  show ?thesis
    using searching_shows_no_results [of
        "[TypeQuery (lit ''ai''), ClickSearch, SearchTimeout 0 rev (Draw 0x10000000000000 0), KeyPress (lit ''Enter'')]"]
      s n
    by simp
qed

end
